theory Spec2Isabelle
  imports Complex_Main "HOL-Library.AList" "HOL-Library.Word"
begin

section \<open>A shallow embedding of the redistore session store\<close>

text \<open>
  The theory embeds \<^verbatim>\<open>redistore.go\<close>: the JSON serializer, the store's configuration
  methods and the session lifecycle \<^verbatim>\<open>New\<close>, \<^verbatim>\<open>Save\<close>, \<^verbatim>\<open>Delete\<close>,
  \<^verbatim>\<open>Store\<close>, \<^verbatim>\<open>Load\<close> with their private helpers. The packages the file imports
  (\<^verbatim>\<open>encoding/json\<close>, \<^verbatim>\<open>securecookie\<close>, \<^verbatim>\<open>sessions\<close>, \<^verbatim>\<open>net/http\<close>,
  \<^verbatim>\<open>go-redis\<close>) are not part of the repository: their data is modelled as far as the store
  reads or writes it, and their functions are either written out from their documented
  behaviour (a few lines each) or taken as parameters in the record \<open>env\<close>.

  Pointers are taken to be valid: a store is one built by \<^verbatim>\<open>NewRedisStoreWithPool\<close>, a
  session is one built by \<^verbatim>\<open>New\<close> (which always installs its options), so no nil
  dereference is modelled. \<^verbatim>\<open>dial\<close>, \<^verbatim>\<open>dialWithDB\<close> and \<^verbatim>\<open>NewRedisStore\<close> open the
  connection and hand it to \<^verbatim>\<open>NewRedisStoreWithPool\<close>; \<^verbatim>\<open>Get\<close> reaches \<^verbatim>\<open>New\<close> through
  the registry of \<^verbatim>\<open>gorilla/sessions\<close>. The model starts at
  \<^verbatim>\<open>NewRedisStoreWithPool\<close> and \<^verbatim>\<open>New\<close>. Output written with \<^verbatim>\<open>fmt.Printf\<close> is not
  modelled.
\<close>

subsection \<open>Go values held in \<^verbatim>\<open>interface{}\<close>\<close>

text \<open>
  Session keys and values have the static type \<^verbatim>\<open>interface{}\<close>. The model covers the
  dynamic types that the JSON decoder produces (\<^verbatim>\<open>nil\<close>, \<^verbatim>\<open>bool\<close>, \<^verbatim>\<open>float64\<close>,
  \<^verbatim>\<open>string\<close>, \<^verbatim>\<open>[]interface{}\<close>, \<^verbatim>\<open>map[string]interface{}\<close>) and \<^verbatim>\<open>int\<close>. A
  finite \<^verbatim>\<open>float64\<close> is represented by its exact rational value, so that equality is
  numeric equality; NaN and the infinities are not represented.
\<close>

datatype gval =
    GNil
  | GBool bool
  | GInt int
  | GFloat rat
  | GString string
  | GSlice "gval list"
  | GMap "(string \<times> gval) list"

datatype panic = UncomparableType

text \<open>
  \<^verbatim>\<open>a != b\<close> on two interface values: values of different dynamic types differ; values of
  the same comparable type are compared; two values of the same uncomparable type (two
  slices, two maps) make the comparison panic at run time.
\<close>

fun go_neq :: "gval \<Rightarrow> gval \<Rightarrow> panic + bool" where
  "go_neq (GSlice a) (GSlice b) = Inl UncomparableType"
| "go_neq (GMap a) (GMap b) = Inl UncomparableType"
| "go_neq a b = Inr (a \<noteq> b)"

definition is_GSlice :: "gval \<Rightarrow> bool" where
  "is_GSlice a = (case a of GSlice xs \<Rightarrow> True | _ \<Rightarrow> False)"

definition is_GMap :: "gval \<Rightarrow> bool" where
  "is_GMap a = (case a of GMap kvs \<Rightarrow> True | _ \<Rightarrow> False)"

text \<open>Two values that Go cannot compare with each other: two slices, or two maps.\<close>

definition uncomparable_pair :: "gval \<Rightarrow> gval \<Rightarrow> bool" where
  "uncomparable_pair a b = ((is_GSlice a \<and> is_GSlice b) \<or> (is_GMap a \<and> is_GMap b))"

text \<open>
  A Go map is an association list with distinct keys; the order of the list is the order
  in which \<^verbatim>\<open>range\<close> happens to visit the entries. \<^verbatim>\<open>m[k]\<close> yields the zero value
  \<^verbatim>\<open>nil\<close> for a missing key, \<^verbatim>\<open>m[k] = v\<close> is \<^const>\<open>AList.update\<close>,
  \<^verbatim>\<open>delete(m, k)\<close> is \<^const>\<open>AList.delete\<close>.
\<close>

type_synonym bytes = string
type_synonym payload = "(gval \<times> gval) list"
type_synonym smap = "(string \<times> gval) list"

definition is_GString :: "gval \<Rightarrow> bool" where
  "is_GString k = (case k of GString ks \<Rightarrow> True | _ \<Rightarrow> False)"

definition go_index :: "('k \<times> gval) list \<Rightarrow> 'k \<Rightarrow> gval" where
  "go_index m k = (case map_of m k of None \<Rightarrow> GNil | Some v \<Rightarrow> v)"

definition TrimRight :: "string \<Rightarrow> string \<Rightarrow> string" where
  "TrimRight s cutset = rev (dropWhile (\<lambda>c. c \<in> set cutset) (rev s))"

subsection \<open>Errors\<close>

datatype error =
    ErrNoCookie
  | ErrNoCodecs
  | CodecError string
  | MultiError "error list"
  | NonStringKey gval
  | EncodingError string
  | ErrorsNew string
  | RedisNil
  | RedisError string

subsection \<open>The remote store behind \<^verbatim>\<open>redis.Cmdable\<close>\<close>

text \<open>
  The server holds a value and the expiration it was written with (in nanoseconds, as
  \<^verbatim>\<open>time.Duration\<close>) for each key. \<open>fault\<close> is a transport failure: while it is set, every
  command fails with that error and changes nothing. \<open>calls\<close> records every command
  issued, in order.
\<close>

datatype redis_cmd = CmdGet string | CmdSet string bytes int | CmdDel string | CmdShutdown

record redis =
  kv :: "string \<rightharpoonup> (bytes \<times> int)"
  fault :: "string option"
  calls :: "redis_cmd list"

definition redis_Get :: "redis \<Rightarrow> string \<Rightarrow> (bytes option \<times> error option) \<times> redis" where
  "redis_Get r key =
     (let r' = r\<lparr>calls := calls r @ [CmdGet key]\<rparr> in
      case fault r of
        Some msg \<Rightarrow> ((None, Some (RedisError msg)), r')
      | None \<Rightarrow>
          (case kv r key of
             None \<Rightarrow> ((None, Some RedisNil), r')
           | Some (b, ttl) \<Rightarrow> ((Some b, None), r')))"

definition redis_Set :: "redis \<Rightarrow> string \<Rightarrow> bytes \<Rightarrow> int \<Rightarrow> error option \<times> redis" where
  "redis_Set r key b expiration =
     (let r' = r\<lparr>calls := calls r @ [CmdSet key b expiration]\<rparr> in
      case fault r of
        Some msg \<Rightarrow> (Some (RedisError msg), r')
      | None \<Rightarrow> (None, r'\<lparr>kv := (kv r)(key \<mapsto> (b, expiration))\<rparr>))"

definition redis_Del :: "redis \<Rightarrow> string \<Rightarrow> error option \<times> redis" where
  "redis_Del r key =
     (let r' = r\<lparr>calls := calls r @ [CmdDel key]\<rparr> in
      case fault r of
        Some msg \<Rightarrow> (Some (RedisError msg), r')
      | None \<Rightarrow> (None, r'\<lparr>kv := (kv r)(key := None)\<rparr>))"

definition redis_Shutdown :: "redis \<Rightarrow> error option \<times> redis" where
  "redis_Shutdown r =
     (let r' = r\<lparr>calls := calls r @ [CmdShutdown]\<rparr> in
      case fault r of
        Some msg \<Rightarrow> (Some (RedisError msg), r')
      | None \<Rightarrow> (None, r'\<lparr>fault := Some ''connection closed''\<rparr>))"

text \<open>\<^verbatim>\<open>time.Duration(age) * time.Second\<close>: a 64-bit signed product that wraps around.\<close>

definition Duration_Seconds :: "int \<Rightarrow> int" where
  "Duration_Seconds age = sint (word_of_int (age * 1000000000) :: 64 word)"

subsection \<open>Cookies, options and sessions (\<^verbatim>\<open>net/http\<close>, \<^verbatim>\<open>gorilla/sessions\<close>)\<close>

record options =
  Path :: string
  Domain :: string
  MaxAge :: int
  Secure :: bool
  HttpOnly :: bool
  SameSite :: int

datatype expires = ExpiresUnset | ExpiresNowPlus int | ExpiresEpoch

record cookie =
  cName :: string
  cValue :: string
  cPath :: string
  cDomain :: string
  cMaxAge :: int
  cSecure :: bool
  cHttpOnly :: bool
  cSameSite :: int
  cExpires :: expires

text \<open>
  \<^verbatim>\<open>sessions.NewCookie\<close> copies the options into the cookie and derives \<^verbatim>\<open>Expires\<close> from
  the sign of \<^verbatim>\<open>MaxAge\<close>: for a positive max-age it is the current time plus
  \<^verbatim>\<open>time.Duration(MaxAge) * time.Second\<close>, a duration in nanoseconds that wraps around
  like the one of the record; for a negative max-age it is one second after the epoch.
\<close>

definition NewCookie :: "string \<Rightarrow> string \<Rightarrow> options \<Rightarrow> cookie" where
  "NewCookie name val opts =
     \<lparr>cName = name, cValue = val, cPath = Path opts, cDomain = Domain opts,
      cMaxAge = MaxAge opts, cSecure = Secure opts, cHttpOnly = HttpOnly opts,
      cSameSite = SameSite opts,
      cExpires = (if MaxAge opts > 0 then ExpiresNowPlus (Duration_Seconds (MaxAge opts))
                  else if MaxAge opts < 0 then ExpiresEpoch else ExpiresUnset)\<rparr>"

text \<open>
  A request is the list of (name, value) cookies it carries; \<^verbatim>\<open>r.Cookie(name)\<close> returns the
  first one with that name. A response is the list of cookies for which
  \<^verbatim>\<open>http.SetCookie\<close> added a \<^verbatim>\<open>Set-Cookie\<close> header, in order. \<^verbatim>\<open>http.SetCookie\<close> adds
  the header only when the cookie's name is a valid cookie name, that is a non-empty
  string of HTTP token characters (letters, digits and the fifteen punctuation characters
  of the token grammar); a cookie with any other name is dropped without an error.
\<close>

type_synonym request = "(string \<times> string) list"
type_synonym response = "cookie list"

definition Cookie :: "request \<Rightarrow> string \<Rightarrow> error + string" where
  "Cookie r name = (case map_of r name of None \<Rightarrow> Inl ErrNoCookie | Some v \<Rightarrow> Inr v)"

definition isTokenRune :: "char \<Rightarrow> bool" where
  "isTokenRune c =
     (let n = (of_char c :: nat) in
      (48 \<le> n \<and> n \<le> 57) \<or> (65 \<le> n \<and> n \<le> 90) \<or> (97 \<le> n \<and> n \<le> 122) \<or>
      n \<in> {33, 35, 36, 37, 38, 39, 42, 43, 45, 46, 94, 95, 96, 124, 126})"

definition isCookieNameValid :: "string \<Rightarrow> bool" where
  "isCookieNameValid raw = (raw \<noteq> [] \<and> list_all isTokenRune raw)"

definition SetCookie :: "response \<Rightarrow> cookie \<Rightarrow> response" where
  "SetCookie w c = (if isCookieNameValid (cName c) then w @ [c] else w)"

record session =
  sess_ID :: string
  sess_Values :: payload
  sess_Options :: options
  sess_IsNew :: bool
  sess_name :: string

subsection \<open>Cookie codecs (\<^verbatim>\<open>gorilla/securecookie\<close>)\<close>

text \<open>
  A codec is either a \<^verbatim>\<open>*securecookie.SecureCookie\<close>, whose \<open>maxAge\<close> is the window its
  \<^verbatim>\<open>Decode\<close> enforces, or some other implementation of the \<^verbatim>\<open>Codec\<close> interface, which
  the store can only call through \<^verbatim>\<open>Encode\<close> and \<^verbatim>\<open>Decode\<close>.
\<close>

record secure_cookie =
  hashKey :: bytes
  blockKey :: bytes
  maxAge :: int

datatype codec = SecureCookie secure_cookie | OtherCodec string

definition securecookie_New :: "bytes \<Rightarrow> bytes \<Rightarrow> codec" where
  "securecookie_New hk bk = SecureCookie \<lparr>hashKey = hk, blockKey = bk, maxAge = 86400 * 30\<rparr>"

fun CodecsFromPairs :: "bytes list \<Rightarrow> codec list" where
  "CodecsFromPairs [] = []"
| "CodecsFromPairs [hk] = [securecookie_New hk []]"
| "CodecsFromPairs (hk # bk # rest) = securecookie_New hk bk # CodecsFromPairs rest"

definition is_SecureCookie :: "codec \<Rightarrow> bool" where
  "is_SecureCookie c = (case c of SecureCookie sc \<Rightarrow> True | OtherCodec n \<Rightarrow> False)"

definition enforced_maxAge :: "codec \<Rightarrow> int option" where
  "enforced_maxAge c = (case c of SecureCookie sc \<Rightarrow> Some (maxAge sc) | OtherCodec n \<Rightarrow> None)"

record SessionInfo =
  ID :: string
  CreateTime :: gval

subsection \<open>Library functions taken as parameters\<close>

text \<open>
  \<open>json_Marshal\<close> is \<^verbatim>\<open>json.Marshal\<close> on a string-keyed map; \<open>json_Unmarshal d m\<close> is
  \<^verbatim>\<open>json.Unmarshal(d, &m)\<close> and returns the error together with the map it leaves behind;
  \<open>gob_Encode\<close> is a fresh gob encoder's \<^verbatim>\<open>Encode\<close> on a session's values and
  \<open>gob_Decode d m\<close> a fresh gob decoder's \<^verbatim>\<open>Decode(&m)\<close> on the bytes \<open>d\<close>, again
  with the map it leaves behind;
  \<open>codec_Encode\<close> and \<open>codec_Decode\<close> are the two methods of a codec, \<open>codec_Decode\<close>
  returning the envelope it leaves in its destination; \<open>random_b32\<close> is the base-32 text
  of \<^verbatim>\<open>securecookie.GenerateRandomKey(32)\<close>; \<open>time_Now\<close> is
  \<^verbatim>\<open>time.Now().Format("20060102150405")\<close>.
\<close>

record env =
  json_Marshal :: "smap \<Rightarrow> error + bytes"
  json_Unmarshal :: "bytes \<Rightarrow> smap \<Rightarrow> error option \<times> smap"
  gob_Encode :: "payload \<Rightarrow> error + bytes"
  gob_Decode :: "bytes \<Rightarrow> payload \<Rightarrow> error option \<times> payload"
  codec_Encode :: "codec \<Rightarrow> string \<Rightarrow> SessionInfo \<Rightarrow> error + string"
  codec_Decode :: "codec \<Rightarrow> string \<Rightarrow> string \<Rightarrow> error + SessionInfo"
  random_b32 :: string
  time_Now :: string

text \<open>\<^verbatim>\<open>securecookie.EncodeMulti\<close> and \<^verbatim>\<open>securecookie.DecodeMulti\<close>: the first codec that
  succeeds wins; the errors of the others are collected.\<close>

fun encode_loop :: "env \<Rightarrow> string \<Rightarrow> SessionInfo \<Rightarrow> codec list \<Rightarrow> error list \<Rightarrow> error + string" where
  "encode_loop env name info [] errs = Inl (MultiError errs)"
| "encode_loop env name info (c # cs) errs =
     (case codec_Encode env c name info of
        Inr encoded \<Rightarrow> Inr encoded
      | Inl err \<Rightarrow> encode_loop env name info cs (errs @ [err]))"

definition EncodeMulti :: "env \<Rightarrow> string \<Rightarrow> SessionInfo \<Rightarrow> codec list \<Rightarrow> error + string" where
  "EncodeMulti env name info codecs =
     (if codecs = [] then Inl ErrNoCodecs else encode_loop env name info codecs [])"

fun decode_loop :: "env \<Rightarrow> string \<Rightarrow> string \<Rightarrow> codec list \<Rightarrow> error list \<Rightarrow> error + SessionInfo" where
  "decode_loop env name val [] errs = Inl (MultiError errs)"
| "decode_loop env name val (c # cs) errs =
     (case codec_Decode env c name val of
        Inr info \<Rightarrow> Inr info
      | Inl err \<Rightarrow> decode_loop env name val cs (errs @ [err]))"

definition DecodeMulti :: "env \<Rightarrow> string \<Rightarrow> string \<Rightarrow> codec list \<Rightarrow> error + SessionInfo" where
  "DecodeMulti env name val codecs =
     (if codecs = [] then Inl ErrNoCodecs else decode_loop env name val codecs [])"

subsection \<open>Serializers\<close>

text \<open>
  \<^verbatim>\<open>JSONSerializer\<close> is the one type of the package that implements all four methods of
  \<^verbatim>\<open>SessionSerializer\<close>, hence the one serializer of the package that a store can hold;
  \<^verbatim>\<open>GobSerializer\<close> has only \<^verbatim>\<open>Serialize\<close> and \<^verbatim>\<open>Deserialize\<close>, and its two methods
  stand on their own.
  \<^verbatim>\<open>JSONSerializer.Serialize\<close> walks the session's values in \<^verbatim>\<open>range\<close> order and stops
  at the first key that is not a string.
\<close>

datatype serializer = JSONSerializer

fun SerializeData :: "env \<Rightarrow> serializer \<Rightarrow> smap \<Rightarrow> error + bytes" where
  "SerializeData env JSONSerializer data = json_Marshal env data"

fun DeserializeData :: "env \<Rightarrow> serializer \<Rightarrow> bytes \<Rightarrow> smap \<Rightarrow> error option \<times> smap" where
  "DeserializeData env JSONSerializer d m = json_Unmarshal env d m"

fun string_keys :: "payload \<Rightarrow> smap \<Rightarrow> error + smap" where
  "string_keys [] m = Inr m"
| "string_keys ((k, v) # rest) m =
     (case k of
        GString ks \<Rightarrow> string_keys rest (AList.update ks v m)
      | _ \<Rightarrow> Inl (NonStringKey k))"

fun Serialize :: "env \<Rightarrow> serializer \<Rightarrow> session \<Rightarrow> error + bytes" where
  "Serialize env JSONSerializer ss =
     (case string_keys (sess_Values ss) [] of
        Inl err \<Rightarrow> Inl err
      | Inr m \<Rightarrow> SerializeData env JSONSerializer m)"

fun Deserialize :: "env \<Rightarrow> serializer \<Rightarrow> bytes \<Rightarrow> session \<Rightarrow> error option \<times> session" where
  "Deserialize env JSONSerializer d ss =
     (case DeserializeData env JSONSerializer d [] of
        (Some err, m) \<Rightarrow> (Some err, ss)
      | (None, m) \<Rightarrow>
          (None, ss\<lparr>sess_Values :=
                   fold (\<lambda>(k, v) vals. AList.update (GString k) v vals) m (sess_Values ss)\<rparr>))"




subsection \<open>The store and its configuration\<close>

definition sessionExpire :: int where
  "sessionExpire = 86400 * 3000"

record RediStore =
  Pool :: redis
  Codecs :: "codec list"
  Options :: options
  DefaultMaxAge :: int
  maxLength :: int
  keyPrefix :: string
  serializer :: serializer

definition SetMaxLength :: "RediStore \<Rightarrow> int \<Rightarrow> RediStore" where
  "SetMaxLength s l = (if l \<ge> 0 then s\<lparr>maxLength := l\<rparr> else s)"

definition SetKeyPrefix :: "RediStore \<Rightarrow> string \<Rightarrow> RediStore" where
  "SetKeyPrefix s p = s\<lparr>keyPrefix := p\<rparr>"

definition SetSerializer :: "RediStore \<Rightarrow> serializer \<Rightarrow> RediStore" where
  "SetSerializer s ss = s\<lparr>serializer := ss\<rparr>"

text \<open>
  \<^verbatim>\<open>SetMaxAge\<close> walks the codecs; a codec that is a \<^verbatim>\<open>*SecureCookie\<close> gets the new
  window, any other codec is reported on standard output and left as it is.
\<close>

fun SetMaxAge_codecs :: "int \<Rightarrow> codec list \<Rightarrow> codec list" where
  "SetMaxAge_codecs v [] = []"
| "SetMaxAge_codecs v (c # cs) =
     (case c of
        SecureCookie sc \<Rightarrow> SecureCookie (sc\<lparr>maxAge := v\<rparr>)
      | OtherCodec n \<Rightarrow> OtherCodec n) # SetMaxAge_codecs v cs"

definition SetMaxAge :: "RediStore \<Rightarrow> int \<Rightarrow> RediStore" where
  "SetMaxAge s v =
     s\<lparr>Options := (Options s)\<lparr>MaxAge := v\<rparr>, Codecs := SetMaxAge_codecs v (Codecs s)\<rparr>"

definition NewRedisStoreWithPool :: "redis \<Rightarrow> bytes list \<Rightarrow> RediStore" where
  "NewRedisStoreWithPool pool keyPairs =
     \<lparr>Pool = pool,
      Codecs = CodecsFromPairs keyPairs,
      Options = \<lparr>Path = ''/'', Domain = [], MaxAge = sessionExpire, Secure = False,
                 HttpOnly = False, SameSite = 0\<rparr>,
      DefaultMaxAge = 60 * 20,
      maxLength = 4096,
      keyPrefix = ''session_'',
      serializer = JSONSerializer\<rparr>"

definition Close :: "RediStore \<Rightarrow> error option \<times> RediStore" where
  "Close s = (case redis_Shutdown (Pool s) of (err, pool') \<Rightarrow> (err, s\<lparr>Pool := pool'\<rparr>))"

subsection \<open>Reading, writing and deleting the remote record\<close>

definition load :: "env \<Rightarrow> RediStore \<Rightarrow> session \<Rightarrow> (bool \<times> error option) \<times> RediStore \<times> session" where
  "load env s sess =
     (case redis_Get (Pool s) (keyPrefix s @ sess_ID sess) of
        ((data, Some err), pool') \<Rightarrow>
          (if err = RedisNil then ((False, None), s\<lparr>Pool := pool'\<rparr>, sess)
           else ((False, Some err), s\<lparr>Pool := pool'\<rparr>, sess))
      | ((None, None), pool') \<Rightarrow> ((False, None), s\<lparr>Pool := pool'\<rparr>, sess)
      | ((Some d, None), pool') \<Rightarrow>
          (case Deserialize env (serializer s) d sess of
             (derr, sess') \<Rightarrow> ((True, derr), s\<lparr>Pool := pool'\<rparr>, sess')))"

definition save :: "env \<Rightarrow> RediStore \<Rightarrow> session \<Rightarrow> error option \<times> RediStore" where
  "save env s sess =
     (case Serialize env (serializer s) sess of
        Inl err \<Rightarrow> (Some err, s)
      | Inr b \<Rightarrow>
          if maxLength s \<noteq> 0 \<and> int (length b) > maxLength s
          then (Some (ErrorsNew ''SessionStore: the value to store is too big''), s)
          else
            let age = MaxAge (sess_Options sess);
                age = (if age = 0 then DefaultMaxAge s else age)
            in (case redis_Set (Pool s) (keyPrefix s @ sess_ID sess) b (Duration_Seconds age) of
                  (err, pool') \<Rightarrow> (err, s\<lparr>Pool := pool'\<rparr>)))"

definition delete :: "RediStore \<Rightarrow> session \<Rightarrow> error option \<times> RediStore" where
  "delete s sess =
     (case redis_Del (Pool s) (keyPrefix s @ sess_ID sess) of
        (err, pool') \<Rightarrow> (err, s\<lparr>Pool := pool'\<rparr>))"

definition Store :: "env \<Rightarrow> RediStore \<Rightarrow> string \<Rightarrow> smap \<Rightarrow> error option \<times> RediStore" where
  "Store env s sid data =
     (case SerializeData env (serializer s) data of
        Inl err \<Rightarrow> (Some err, s)
      | Inr b \<Rightarrow>
          if maxLength s \<noteq> 0 \<and> int (length b) > maxLength s
          then (Some (ErrorsNew ''SessionStore: the value to store is too big''), s)
          else (case redis_Set (Pool s) (keyPrefix s @ sid) b (Duration_Seconds sessionExpire) of
                  (err, pool') \<Rightarrow> (err, s\<lparr>Pool := pool'\<rparr>)))"

text \<open>\<^verbatim>\<open>Load\<close> takes a pointer to the destination map; \<open>None\<close> is the nil pointer.\<close>

definition Load :: "env \<Rightarrow> RediStore \<Rightarrow> string \<Rightarrow> smap option
    \<Rightarrow> (bool \<times> error option) \<times> RediStore \<times> smap option" where
  "Load env s sid data =
     (case redis_Get (Pool s) (keyPrefix s @ sid) of
        ((d, Some err), pool') \<Rightarrow>
          (if err = RedisNil then ((False, None), s\<lparr>Pool := pool'\<rparr>, data)
           else ((False, Some err), s\<lparr>Pool := pool'\<rparr>, data))
      | ((None, None), pool') \<Rightarrow> ((False, None), s\<lparr>Pool := pool'\<rparr>, data)
      | ((Some d, None), pool') \<Rightarrow>
          (case data of
             None \<Rightarrow> ((False, None), s\<lparr>Pool := pool'\<rparr>, data)
           | Some m \<Rightarrow>
               (case DeserializeData env (serializer s) d m of
                  (derr, m') \<Rightarrow> ((True, derr), s\<lparr>Pool := pool'\<rparr>, Some m'))))"

subsection \<open>The session lifecycle\<close>

text \<open>
  \<^verbatim>\<open>New\<close> starts from \<^verbatim>\<open>sessions.NewSession\<close> (empty values, empty ID) with a copy of
  the store's options and \<^verbatim>\<open>IsNew = true\<close>. It returns the session together with the
  error, or panics in the comparison of the two creation stamps.
\<close>

definition New :: "env \<Rightarrow> RediStore \<Rightarrow> request \<Rightarrow> string
    \<Rightarrow> panic + (RediStore \<times> session \<times> error option)" where
  "New env s r name =
     (let sess = \<lparr>sess_ID = [], sess_Values = [], sess_Options = Options s,
                 sess_IsNew = True, sess_name = name\<rparr> in
      case Cookie r name of
        Inl errCookie \<Rightarrow> Inr (s, sess, None)
      | Inr c \<Rightarrow>
          (case DecodeMulti env name c (Codecs s) of
             Inl err \<Rightarrow> Inr (s, sess, Some err)
           | Inr sessionInfo \<Rightarrow>
               (case load env s (sess\<lparr>sess_ID := ID sessionInfo\<rparr>) of
                  ((ok, err), s', sess') \<Rightarrow>
                    if err = None \<and> ok then
                      (case go_neq (go_index (sess_Values sess') (GString ''created_time''))
                                   (CreateTime sessionInfo) of
                         Inl p \<Rightarrow> Inl p
                       | Inr differs \<Rightarrow>
                           if differs
                           then Inr (s', sess'\<lparr>sess_Values := [], sess_IsNew := True\<rparr>, err)
                           else Inr (s', sess'\<lparr>sess_IsNew := False\<rparr>, err))
                    else Inr (s', sess'\<lparr>sess_IsNew := \<not> (err = None \<and> ok)\<rparr>, err))))"

text \<open>The two preparation steps of \<^verbatim>\<open>Save\<close> before it writes: an ID for a session that
  has none, and a \<^verbatim>\<open>created_time\<close> entry for a payload that has none.\<close>

definition with_ID :: "env \<Rightarrow> session \<Rightarrow> session" where
  "with_ID env sess =
     (if sess_ID sess = [] then sess\<lparr>sess_ID := TrimRight (random_b32 env) ''=''\<rparr> else sess)"

definition with_created_time :: "env \<Rightarrow> session \<Rightarrow> gval \<times> session" where
  "with_created_time env sess =
     (case map_of (sess_Values sess) (GString ''created_time'') of
        Some createdTime \<Rightarrow> (createdTime, sess)
      | None \<Rightarrow>
          (GString (time_Now env),
           sess\<lparr>sess_Values := AList.update (GString ''created_time'') (GString (time_Now env))
                                  (sess_Values sess)\<rparr>))"

definition Save :: "env \<Rightarrow> RediStore \<Rightarrow> response \<Rightarrow> session
    \<Rightarrow> RediStore \<times> response \<times> session \<times> error option" where
  "Save env s w sess =
     (if MaxAge (sess_Options sess) \<le> 0 then
        (case delete s sess of
           (Some err, s') \<Rightarrow> (s', w, sess, Some err)
         | (None, s') \<Rightarrow>
             (s', SetCookie w (NewCookie (sess_name sess) [] (sess_Options sess)), sess, None))
      else
        (case with_created_time env (with_ID env sess) of
           (createdTime, sess') \<Rightarrow>
             (case save env s sess' of
                (Some err, s') \<Rightarrow> (s', w, sess', Some err)
              | (None, s') \<Rightarrow>
                  (case EncodeMulti env (sess_name sess')
                          \<lparr>ID = sess_ID sess', CreateTime = createdTime\<rparr> (Codecs s') of
                     Inl err \<Rightarrow> (s', w, sess', Some err)
                   | Inr encoded \<Rightarrow>
                       (s', SetCookie w (NewCookie (sess_name sess') encoded (sess_Options sess')),
                        sess', None)))))"

definition Delete :: "RediStore \<Rightarrow> response \<Rightarrow> session
    \<Rightarrow> RediStore \<times> response \<times> session \<times> error option" where
  "Delete s w sess =
     (case redis_Del (Pool s) (keyPrefix s @ sess_ID sess) of
        (Some err, pool') \<Rightarrow> (s\<lparr>Pool := pool'\<rparr>, w, sess, Some err)
      | (None, pool') \<Rightarrow>
          (s\<lparr>Pool := pool'\<rparr>,
           SetCookie w (NewCookie (sess_name sess) [] ((sess_Options sess)\<lparr>MaxAge := - 1\<rparr>)),
           sess\<lparr>sess_Values := fold AList.delete (map fst (sess_Values sess)) (sess_Values sess)\<rparr>,
           None))"

subsection \<open>Stores that the package can produce\<close>

text \<open>
  A store starts in \<^const>\<open>NewRedisStoreWithPool\<close> and is then used through its methods;
  a client can also assign the exported fields, but not \<open>maxLength\<close>, \<open>keyPrefix\<close> or
  \<open>serializer\<close>.
\<close>

inductive reachable :: "RediStore \<Rightarrow> bool" where
  r_init: "reachable (NewRedisStoreWithPool pool keyPairs)"
| r_SetMaxLength: "reachable s \<Longrightarrow> reachable (SetMaxLength s l)"
| r_SetKeyPrefix: "reachable s \<Longrightarrow> reachable (SetKeyPrefix s p)"
| r_SetSerializer: "reachable s \<Longrightarrow> reachable (SetSerializer s ss)"
| r_SetMaxAge: "reachable s \<Longrightarrow> reachable (SetMaxAge s v)"
| r_Close: "reachable s \<Longrightarrow> reachable (snd (Close s))"
| r_New: "reachable s \<Longrightarrow> New env s r name = Inr (s', sess, err) \<Longrightarrow> reachable s'"
| r_Save: "reachable s \<Longrightarrow> reachable (fst (Save env s w sess))"
| r_Delete: "reachable s \<Longrightarrow> reachable (fst (Delete s w sess))"
| r_Store: "reachable s \<Longrightarrow> reachable (snd (Store env s sid data))"
| r_Load: "reachable s \<Longrightarrow> reachable (fst (snd (Load env s sid dst)))"
| r_assign: "reachable s \<Longrightarrow>
     reachable (s\<lparr>Pool := pool, Codecs := codecs, Options := opts, DefaultMaxAge := d\<rparr>)"

subsection \<open>Concrete inputs\<close>

text \<open>
  A small environment for evaluating the model: the toy \<open>json_Marshal\<close> writes the keys
  one after the other, the toy \<open>json_Unmarshal\<close> reads the bytes as the text of the
  \<^verbatim>\<open>created_time\<close> entry of a two-entry payload, the toy gob encoder knows one payload,
  and a \<^verbatim>\<open>SecureCookie\<close> accepts exactly the token \<^verbatim>\<open>tok\<close>.
\<close>

definition ex_env :: env where
  "ex_env =
     \<lparr>json_Marshal = (\<lambda>m. Inr (concat (map fst m))),
      json_Unmarshal = (\<lambda>d m.
         if d = [] then (Some (EncodingError ''unexpected end of JSON input''), m)
         else (None, AList.update ''created_time'' (GString d)
                       (AList.update ''user'' (GString ''bob'') m))),
      gob_Encode = (\<lambda>vals.
         if vals = [(GInt 1, GString ''x'')] then Inr ''G1''
         else Inl (EncodingError ''gob: type not registered for interface'')),
      gob_Decode = (\<lambda>d vals.
         if d = ''G1'' then (None, AList.update (GInt 1) (GString ''x'') vals)
         else (Some (EncodingError ''unexpected EOF''), vals)),
      codec_Encode = (\<lambda>c name info.
         case c of SecureCookie sc \<Rightarrow> Inr ''tok'' | OtherCodec n \<Rightarrow> Inl (CodecError n)),
      codec_Decode = (\<lambda>c name val.
         case c of
           SecureCookie sc \<Rightarrow>
             if val = ''tok''
             then Inr \<lparr>ID = ''abc'', CreateTime = GString ''20200101000000''\<rparr>
             else Inl (CodecError ''securecookie: the value is not valid'')
         | OtherCodec n \<Rightarrow> Inl (CodecError n)),
      random_b32 = ''MFRGGZDFMY======'',
      time_Now = ''20240102030405''\<rparr>"

definition ex_pool :: redis where
  "ex_pool = \<lparr>kv = [''session_abc'' \<mapsto> (''20190101000000'', 3600000000000)],
              fault = None, calls = []\<rparr>"

definition ex_store :: RediStore where
  "ex_store = NewRedisStoreWithPool ex_pool [''hash-key'', ''block-key'']"

definition ex_down :: RediStore where
  "ex_down = ex_store\<lparr>Pool := ex_pool\<lparr>fault := Some ''i/o timeout''\<rparr>\<rparr>"

definition ex_small :: RediStore where
  "ex_small = SetMaxLength ex_store 8"

definition ex_mixed :: RediStore where
  "ex_mixed = ex_store\<lparr>Codecs := Codecs ex_store @ [OtherCodec ''legacy'']\<rparr>"

definition ex_request :: request where
  "ex_request = [(''sid'', ''tok'')]"

definition ex_forged :: request where
  "ex_forged = [(''sid'', ''forged'')]"

definition ex_session :: "int \<Rightarrow> session" where
  "ex_session age =
     \<lparr>sess_ID = ''abc'',
      sess_Values = [(GString ''created_time'', GString ''20200101000000''),
                     (GString ''user'', GString ''bob'')],
      sess_Options = (Options ex_store)\<lparr>MaxAge := age\<rparr>,
      sess_IsNew = False,
      sess_name = ''sid''\<rparr>"

definition ex_nonstring :: session where
  "ex_nonstring = (ex_session 3600)\<lparr>sess_Values := [(GInt 1, GString ''x'')]\<rparr>"

text \<open>A session whose name has a space in it, which no cookie name may have.\<close>

definition ex_badname :: session where
  "ex_badname = (ex_session (- 1))\<lparr>sess_name := ''my session''\<rparr>"

text \<open>An environment in which both creation stamps are slices: the envelope carries
  one, and the record decodes to a payload that holds another.\<close>

definition ex_slice_env :: env where
  "ex_slice_env =
     ex_env\<lparr>json_Unmarshal := (\<lambda>d m.
                (None, AList.update ''created_time'' (GSlice [GString ''b'']) m)),
            codec_Decode := (\<lambda>c name val.
                Inr \<lparr>ID = ''abc'', CreateTime = GSlice [GString ''a'']\<rparr>)\<rparr>"



definition ex_fresh :: session where
  "ex_fresh = \<lparr>sess_ID = ''abc'', sess_Values = [], sess_Options = Options ex_store,
               sess_IsNew = True, sess_name = ''sid''\<rparr>"

section \<open>Properties\<close>

subsection \<open>Evaluating the concrete inputs\<close>

lemma ex_store_simps:
  "Pool ex_store = ex_pool" "keyPrefix ex_store = ''session_''" "maxLength ex_store = 4096"
  "serializer ex_store = JSONSerializer" "DefaultMaxAge ex_store = 1200"
  "Codecs ex_store =
     [SecureCookie \<lparr>hashKey = ''hash-key'', blockKey = ''block-key'', maxAge = 2592000\<rparr>]"
  "Options ex_store = \<lparr>Path = ''/'', Domain = [], MaxAge = 259200000, Secure = False,
                        HttpOnly = False, SameSite = 0\<rparr>"
  by (simp_all add: ex_store_def NewRedisStoreWithPool_def securecookie_New_def sessionExpire_def)

lemma ex_down_simps:
  "Pool ex_down = ex_pool\<lparr>fault := Some ''i/o timeout''\<rparr>" "keyPrefix ex_down = ''session_''"
  by (simp_all add: ex_down_def ex_store_simps)

lemma ex_mixed_Codecs:
  "Codecs ex_mixed =
     [SecureCookie \<lparr>hashKey = ''hash-key'', blockKey = ''block-key'', maxAge = 2592000\<rparr>,
      OtherCodec ''legacy'']"
  by (simp add: ex_mixed_def ex_store_simps)

lemma cName_NewCookie: "cName (NewCookie name val opts) = name"
  by (simp add: NewCookie_def)

lemma sid_valid: "isCookieNameValid ''sid''"
  by (simp add: isCookieNameValid_def isTokenRune_def)

lemma my_session_invalid: "\<not> isCookieNameValid ''my session''"
  by (simp add: isCookieNameValid_def isTokenRune_def)

lemma ex_session_name: "sess_name (ex_session age) = ''sid''"
  by (simp add: ex_session_def)

subsection \<open>The maximum payload length\<close>

lemma maxLength_Save: "maxLength (fst (Save env s w sess)) = maxLength s"
  by (auto simp: Save_def delete_def save_def Let_def
        split: prod.splits option.splits sum.splits if_splits)

lemma maxLength_New: "New env s r name = Inr (s', sess, err) \<Longrightarrow> maxLength s' = maxLength s"
  by (auto simp: New_def load_def Let_def split: prod.splits option.splits sum.splits if_splits)

lemma maxLength_Delete: "maxLength (fst (Delete s w sess)) = maxLength s"
  by (auto simp: Delete_def split: prod.splits option.splits)

lemma maxLength_Store: "maxLength (snd (Store env s sid data)) = maxLength s"
  by (auto simp: Store_def split: prod.splits option.splits sum.splits)

lemma maxLength_Load: "maxLength (fst (snd (Load env s sid dst))) = maxLength s"
  by (auto simp: Load_def split: prod.splits option.splits sum.splits)

lemma maxLength_Close: "maxLength (snd (Close s)) = maxLength s"
  by (auto simp: Close_def split: prod.splits)

lemma reachable_maxLength: "reachable s \<Longrightarrow> 0 \<le> maxLength s"
proof (induction rule: reachable.induct)
  case (r_init pool keyPairs)
  show ?case by (simp add: NewRedisStoreWithPool_def)
next
  case (r_SetMaxLength s l)
  then show ?case by (simp add: SetMaxLength_def)
next
  case (r_New s env r name s' sess err)
  then show ?case using maxLength_New by fastforce
qed (simp_all add: SetKeyPrefix_def SetSerializer_def SetMaxAge_def maxLength_Save
      maxLength_Delete maxLength_Store maxLength_Load maxLength_Close)

text \<open>
  Claim C10. A new store has maximum length 4096; \<^verbatim>\<open>SetMaxLength\<close> with a negative
  argument leaves the maximum length as it was; and in every store that the constructor
  and any sequence of the package's operations (and of assignments to the exported
  fields) can produce, the maximum length is at least 0.
\<close>

theorem maxLength_never_negative:
  "maxLength (NewRedisStoreWithPool pool keyPairs) = 4096 \<and>
   (l < 0 \<longrightarrow> maxLength (SetMaxLength s l) = maxLength s) \<and>
   (reachable s \<longrightarrow> 0 \<le> maxLength s)"
  by (simp add: NewRedisStoreWithPool_def SetMaxLength_def reachable_maxLength)

theorem maxLength_never_negative_witness:
  "(- 3 :: int) < 0 \<and> reachable ex_small \<and>
   maxLength (SetMaxLength ex_small (- 3)) = 8 \<and> 0 \<le> maxLength ex_small"
proof -
  have r: "reachable ex_small"
    unfolding ex_small_def ex_store_def by (intro r_SetMaxLength r_init)
  have m: "maxLength ex_small = 8"
    by (simp add: ex_small_def SetMaxLength_def)
  show ?thesis
    using maxLength_never_negative [of ex_pool "[]" "- 3" ex_small] r m by simp
qed

subsection \<open>The maximum age of store and codecs\<close>

lemma SetMaxAge_codecs_length: "length (SetMaxAge_codecs v cs) = length cs"
  by (induction cs) auto

lemma SetMaxAge_codecs_nth:
  "i < length cs \<Longrightarrow>
   SetMaxAge_codecs v cs ! i =
     (case cs ! i of
        SecureCookie sc \<Rightarrow> SecureCookie (sc\<lparr>maxAge := v\<rparr>)
      | OtherCodec n \<Rightarrow> OtherCodec n)"
  by (induction cs arbitrary: i) (auto simp: nth_Cons split: nat.splits)

text \<open>
  Claim C5, as the code has it. \<^verbatim>\<open>SetMaxAge\<close> with value \<open>v\<close> sets the store's
  configured max-age to \<open>v\<close> and keeps the number and order of the codecs; every codec
  that is a \<^verbatim>\<open>*SecureCookie\<close> enforces \<open>v\<close> afterwards, and every codec of another type
  is left exactly as it was.
\<close>

theorem SetMaxAge_updates_SecureCookies:
  "MaxAge (Options (SetMaxAge s v)) = v \<and>
   length (Codecs (SetMaxAge s v)) = length (Codecs s) \<and>
   (\<forall>i < length (Codecs s).
      (is_SecureCookie (Codecs s ! i) \<longrightarrow>
         enforced_maxAge (Codecs (SetMaxAge s v) ! i) = Some v) \<and>
      (\<not> is_SecureCookie (Codecs s ! i) \<longrightarrow> Codecs (SetMaxAge s v) ! i = Codecs s ! i))"
  by (auto simp: SetMaxAge_def SetMaxAge_codecs_length SetMaxAge_codecs_nth is_SecureCookie_def
        enforced_maxAge_def split: codec.splits)

theorem SetMaxAge_updates_SecureCookies_witness:
  "MaxAge (Options (SetMaxAge ex_mixed 60)) = 60 \<and>
   enforced_maxAge (Codecs (SetMaxAge ex_mixed 60) ! 0) = Some 60 \<and>
   Codecs (SetMaxAge ex_mixed 60) ! 1 = OtherCodec ''legacy''"
  using SetMaxAge_updates_SecureCookies [of ex_mixed 60]
  by (simp add: ex_mixed_Codecs is_SecureCookie_def All_less_Suc2 numeral_2_eq_2)

text \<open>
  Claim C5 as stated fails on a codec set that holds a codec of another type: after
  \<^verbatim>\<open>SetMaxAge(60)\<close> the second codec of \<open>ex_mixed\<close> is unchanged and enforces no
  60-second window.
\<close>

theorem SetMaxAge_other_codec_counterexample:
  "Codecs (SetMaxAge ex_mixed 60) ! 1 = OtherCodec ''legacy'' \<and>
   enforced_maxAge (OtherCodec ''legacy'') \<noteq> Some 60"
  by (simp add: SetMaxAge_def ex_mixed_Codecs enforced_maxAge_def)

subsection \<open>Delete\<close>

lemma fold_delete_all: "fst ` set al \<subseteq> set ks \<Longrightarrow> fold AList.delete ks al = []"
proof (induction ks arbitrary: al)
  case Nil
  then show ?case by simp
next
  case (Cons k ks)
  have "fst ` set (AList.delete k al) \<subseteq> set ks"
    using Cons.prems by (auto simp: AList.delete_eq)
  then show ?case using Cons.IH by simp
qed

text \<open>
  Claim C3, as the code has it. \<^verbatim>\<open>Delete\<close> always issues the remote delete for the
  session's key. When the delete succeeds, the record is gone, every entry of the
  session's payload is cleared, no error is returned, and a cookie with an empty value
  and max-age \<open>-1\<close> is handed to \<^verbatim>\<open>http.SetCookie\<close>: the response carries it when the
  session's name is a valid cookie name and is left as it was otherwise. When the delete
  fails, its error is returned, and neither the response nor the session is touched.
\<close>

theorem Delete_outcome:
  "(fault (Pool s) = None \<longrightarrow>
      Delete s w sess =
        (s\<lparr>Pool := (Pool s)\<lparr>calls := calls (Pool s) @ [CmdDel (keyPrefix s @ sess_ID sess)],
                             kv := (kv (Pool s))(keyPrefix s @ sess_ID sess := None)\<rparr>\<rparr>,
         (if isCookieNameValid (sess_name sess)
          then w @ [NewCookie (sess_name sess) [] ((sess_Options sess)\<lparr>MaxAge := - 1\<rparr>)]
          else w),
         sess\<lparr>sess_Values := []\<rparr>, None) \<and>
      cValue (NewCookie (sess_name sess) [] ((sess_Options sess)\<lparr>MaxAge := - 1\<rparr>)) = [] \<and>
      cMaxAge (NewCookie (sess_name sess) [] ((sess_Options sess)\<lparr>MaxAge := - 1\<rparr>)) = - 1) \<and>
   (fault (Pool s) = Some msg \<longrightarrow>
      Delete s w sess =
        (s\<lparr>Pool := (Pool s)\<lparr>calls := calls (Pool s) @ [CmdDel (keyPrefix s @ sess_ID sess)]\<rparr>\<rparr>,
         w, sess, Some (RedisError msg)))"
  by (simp add: Delete_def redis_Del_def Let_def SetCookie_def cName_NewCookie fold_delete_all)
    (simp add: NewCookie_def)

theorem Delete_outcome_witness:
  "fault (Pool ex_store) = None \<and> isCookieNameValid (sess_name (ex_session 3600)) \<and>
   sess_Values (fst (snd (snd (Delete ex_store [] (ex_session 3600))))) = [] \<and>
   map cMaxAge (fst (snd (Delete ex_store [] (ex_session 3600)))) = [- 1] \<and>
   \<not> isCookieNameValid (sess_name ex_badname) \<and>
   fst (snd (Delete ex_store [] ex_badname)) = [] \<and>
   fault (Pool ex_down) = Some ''i/o timeout'' \<and>
   snd (snd (snd (Delete ex_down [] (ex_session 3600)))) = Some (RedisError ''i/o timeout'')"
proof -
  have up: "fault (Pool ex_store) = None"
    by (simp add: ex_store_simps ex_pool_def)
  have down: "fault (Pool ex_down) = Some ''i/o timeout''"
    by (simp add: ex_down_simps)
  have good: "isCookieNameValid (sess_name (ex_session 3600))"
    by (simp add: ex_session_name sid_valid)
  have bad: "\<not> isCookieNameValid (sess_name ex_badname)"
    by (simp add: ex_badname_def my_session_invalid)
  show ?thesis
    using Delete_outcome [of ex_store "[]" "ex_session 3600" "''x''"]
      Delete_outcome [of ex_store "[]" ex_badname "''x''"]
      Delete_outcome [of ex_down "[]" "ex_session 3600" "''i/o timeout''"] up down good bad
    by (simp add: NewCookie_def)
qed

text \<open>
  Claim C3 as stated fails when the remote delete returns an error: \<^verbatim>\<open>Delete\<close> returns
  at once, the response carries no cookie and the payload keeps its entries.
\<close>

theorem Delete_error_skips_cookie_counterexample:
  "snd (Delete ex_down [] (ex_session 3600)) =
     ([], ex_session 3600, Some (RedisError ''i/o timeout'')) \<and>
   sess_Values (ex_session 3600) =
     [(GString ''created_time'', GString ''20200101000000''), (GString ''user'', GString ''bob'')]"
  by (simp add: Delete_def redis_Del_def Let_def ex_down_simps ex_session_def)

subsection \<open>Save of a session marked for deletion\<close>

text \<open>
  Claim C8, as the code has it. For a session whose max-age is negative, \<^verbatim>\<open>Save\<close>
  issues the remote delete for the session's key. When the delete succeeds, the record is
  gone, no error is returned, and a cookie with an empty value, the session's negative
  max-age and an expiry in the past is handed to \<^verbatim>\<open>http.SetCookie\<close>: the response
  carries it when the session's name is a valid cookie name and is left as it was
  otherwise. When the delete fails, its error is returned and no cookie is set.
\<close>

theorem Save_negative_maxAge:
  assumes "MaxAge (sess_Options sess) < 0"
  shows "(fault (Pool s) = None \<longrightarrow>
      Save env s w sess =
        (s\<lparr>Pool := (Pool s)\<lparr>calls := calls (Pool s) @ [CmdDel (keyPrefix s @ sess_ID sess)],
                             kv := (kv (Pool s))(keyPrefix s @ sess_ID sess := None)\<rparr>\<rparr>,
         (if isCookieNameValid (sess_name sess)
          then w @ [NewCookie (sess_name sess) [] (sess_Options sess)]
          else w),
         sess, None) \<and>
      cValue (NewCookie (sess_name sess) [] (sess_Options sess)) = [] \<and>
      cMaxAge (NewCookie (sess_name sess) [] (sess_Options sess)) < 0 \<and>
      cExpires (NewCookie (sess_name sess) [] (sess_Options sess)) = ExpiresEpoch) \<and>
   (fault (Pool s) = Some msg \<longrightarrow>
      Save env s w sess =
        (s\<lparr>Pool := (Pool s)\<lparr>calls := calls (Pool s) @ [CmdDel (keyPrefix s @ sess_ID sess)]\<rparr>\<rparr>,
         w, sess, Some (RedisError msg)))"
  using assms
  by (simp add: Save_def delete_def redis_Del_def Let_def SetCookie_def cName_NewCookie)
    (simp add: NewCookie_def)

theorem Save_negative_maxAge_witness:
  "MaxAge (sess_Options (ex_session (- 1))) < 0 \<and> fault (Pool ex_store) = None \<and>
   isCookieNameValid (sess_name (ex_session (- 1))) \<and>
   map cValue (fst (snd (Save ex_env ex_store [] (ex_session (- 1))))) = [[]] \<and>
   map cMaxAge (fst (snd (Save ex_env ex_store [] (ex_session (- 1))))) = [- 1] \<and>
   kv (Pool (fst (Save ex_env ex_store [] (ex_session (- 1))))) ''session_abc'' = None \<and>
   MaxAge (sess_Options ex_badname) < 0 \<and> \<not> isCookieNameValid (sess_name ex_badname) \<and>
   fst (snd (Save ex_env ex_store [] ex_badname)) = [] \<and>
   fault (Pool ex_down) = Some ''i/o timeout'' \<and>
   snd (Save ex_env ex_down [] (ex_session (- 1))) =
     ([], ex_session (- 1), Some (RedisError ''i/o timeout''))"
proof -
  have neg: "MaxAge (sess_Options (ex_session (- 1))) < 0"
    by (simp add: ex_session_def)
  have neg': "MaxAge (sess_Options ex_badname) < 0"
    by (simp add: ex_badname_def ex_session_def)
  have up: "fault (Pool ex_store) = None"
    by (simp add: ex_store_simps ex_pool_def)
  have down: "fault (Pool ex_down) = Some ''i/o timeout''"
    by (simp add: ex_down_simps)
  have key: "keyPrefix ex_store @ sess_ID (ex_session (- 1)) = ''session_abc''"
    by (simp add: ex_store_simps ex_session_def)
  have age: "MaxAge (sess_Options (ex_session (- 1))) = - 1"
    by (simp add: ex_session_def)
  have good: "isCookieNameValid (sess_name (ex_session (- 1)))"
    by (simp add: ex_session_name sid_valid)
  have bad: "\<not> isCookieNameValid (sess_name ex_badname)"
    by (simp add: ex_badname_def my_session_invalid)
  show ?thesis
    using Save_negative_maxAge [OF neg, of ex_store ex_env "[]" "''x''"]
      Save_negative_maxAge [OF neg', of ex_store ex_env "[]" "''x''"]
      Save_negative_maxAge [OF neg, of ex_down ex_env "[]" "''i/o timeout''"]
      up down key age good bad neg'
    by (simp add: NewCookie_def)
qed

text \<open>
  Claim C8 as stated fails at max-age 0: the record is deleted, but the cookie that
  \<^verbatim>\<open>Save\<close> sets has max-age 0 and no expiry, not a negative max-age.
\<close>

theorem Save_zero_maxAge_cookie_counterexample:
  "MaxAge (sess_Options (ex_session 0)) \<le> 0 \<and>
   map cMaxAge (fst (snd (Save ex_env ex_store [] (ex_session 0)))) = [0] \<and>
   map cExpires (fst (snd (Save ex_env ex_store [] (ex_session 0)))) = [ExpiresUnset]"
  by (simp add: Save_def delete_def redis_Del_def Let_def SetCookie_def cName_NewCookie
        ex_session_name sid_valid ex_store_simps ex_pool_def)
    (simp add: NewCookie_def ex_session_def)

text \<open>
  Claim C4 says that \<^verbatim>\<open>Save\<close> of a session with max-age 0 writes the record with the
  store's default max-age as its expiration. The code does not: at max-age 0 the test
  \<^verbatim>\<open>MaxAge <= 0\<close> sends \<^verbatim>\<open>Save\<close> to the deletion branch. On a store whose default
  max-age is 1200 and which holds a record for the session, the only command issued is
  the delete, and the record is gone afterwards.
\<close>

theorem Save_zero_maxAge_deletes_record:
  "MaxAge (sess_Options (ex_session 0)) = 0 \<and>
   DefaultMaxAge ex_store = 1200 \<and>
   kv (Pool ex_store) ''session_abc'' = Some (''20190101000000'', 3600000000000) \<and>
   calls (Pool (fst (Save ex_env ex_store [] (ex_session 0)))) = [CmdDel ''session_abc''] \<and>
   kv (Pool (fst (Save ex_env ex_store [] (ex_session 0)))) ''session_abc'' = None \<and>
   snd (snd (snd (Save ex_env ex_store [] (ex_session 0)))) = None"
  by (simp add: Save_def delete_def redis_Del_def Let_def SetCookie_def cName_NewCookie
        ex_session_name sid_valid ex_store_simps ex_pool_def)
    (simp add: NewCookie_def ex_session_def)

lemma Save_zero_maxAge_calls:
  "MaxAge (sess_Options sess) = 0 \<Longrightarrow>
   calls (Pool (fst (Save env s w sess))) = calls (Pool s) @ [CmdDel (keyPrefix s @ sess_ID sess)]"
  by (simp add: Save_def delete_def redis_Del_def Let_def split: option.splits)

text \<open>
  \<^verbatim>\<open>save\<close> itself does write a session of max-age 0 with the store's default max-age;
  \<^verbatim>\<open>Save\<close> never calls it with such a session.
\<close>

lemma save_zero_maxAge_uses_default:
  assumes "MaxAge (sess_Options sess) = 0"
    and "Serialize env (serializer s) sess = Inr b"
    and "maxLength s = 0 \<or> int (length b) \<le> maxLength s"
  shows "calls (Pool (snd (save env s sess))) =
     calls (Pool s) @ [CmdSet (keyPrefix s @ sess_ID sess) b (Duration_Seconds (DefaultMaxAge s))]"
  using assms by (auto simp: save_def redis_Set_def Let_def split: option.splits)

subsection \<open>Save of a live session\<close>

lemma ex_small_simps:
  "Pool ex_small = ex_pool" "keyPrefix ex_small = ''session_''" "maxLength ex_small = 8"
  "serializer ex_small = JSONSerializer"
  by (simp_all add: ex_small_def SetMaxLength_def ex_store_simps)

lemma ex_session_prepared:
  "with_created_time ex_env (with_ID ex_env (ex_session age)) =
     (GString ''20200101000000'', ex_session age)"
  by (simp add: with_created_time_def with_ID_def ex_session_def)

lemma ex_session_Serialize:
  "Serialize ex_env JSONSerializer (ex_session age) = Inr ''created_timeuser''"
  by (simp add: ex_session_def ex_env_def)

lemma ex_nonstring_simps:
  "sess_Values ex_nonstring = [(GInt 1, GString ''x'')]"
  "MaxAge (sess_Options ex_nonstring) = 3600"
  by (simp_all add: ex_nonstring_def ex_session_def)

lemma Duration_Seconds_exact:
  "- 9223372036 \<le> age \<Longrightarrow> age \<le> 9223372036 \<Longrightarrow> Duration_Seconds age = age * 1000000000"
proof -
  assume "- 9223372036 \<le> age" and "age \<le> 9223372036"
  then have "- (2 ^ 63) \<le> age * 1000000000" and "age * 1000000000 < 2 ^ 63"
    by simp_all
  then have "signed_take_bit 63 (age * 1000000000) = age * 1000000000"
    by (rule signed_take_bit_int_eq_self)
  then show ?thesis
    unfolding Duration_Seconds_def sint_sbintrunc' by simp
qed

text \<open>
  A session with max-age 1800 on the example store: the record is written under
  \<^verbatim>\<open>session_abc\<close> with an expiration of 1800 seconds, and the response carries the
  encoded cookie.
\<close>

lemma Save_writes_record_example:
  "Save ex_env ex_store [] (ex_session 1800) =
     (ex_store\<lparr>Pool := ex_pool\<lparr>
         calls := [CmdSet ''session_abc'' ''created_timeuser'' 1800000000000],
         kv := (kv ex_pool)(''session_abc'' \<mapsto> (''created_timeuser'', 1800000000000))\<rparr>\<rparr>,
      [NewCookie ''sid'' ''tok'' (sess_Options (ex_session 1800))],
      ex_session 1800, None)"
proof -
  have d: "Duration_Seconds 1800 = 1800000000000"
    by (simp add: Duration_Seconds_exact)
  have m: "MaxAge (sess_Options (ex_session 1800)) = 1800" "sess_ID (ex_session 1800) = ''abc''"
    "sess_name (ex_session 1800) = ''sid''"
    by (simp_all add: ex_session_def)
  have e: "EncodeMulti ex_env ''sid'' \<lparr>ID = ''abc'', CreateTime = GString ''20200101000000''\<rparr>
      (Codecs ex_store) = Inr ''tok''"
    by (simp add: EncodeMulti_def ex_store_simps ex_env_def)
  have sv: "save ex_env ex_store (ex_session 1800) =
     (None, ex_store\<lparr>Pool := ex_pool\<lparr>
         calls := [CmdSet ''session_abc'' ''created_timeuser'' 1800000000000],
         kv := (kv ex_pool)(''session_abc'' \<mapsto> (''created_timeuser'', 1800000000000))\<rparr>\<rparr>)"
    by (simp add: save_def ex_store_simps ex_session_Serialize m d redis_Set_def Let_def ex_pool_def
          del: Serialize.simps)
  show ?thesis
    by (simp add: Save_def ex_session_prepared sv m e SetCookie_def cName_NewCookie sid_valid)
qed

text \<open>
  Claim C2, as the code has it. For a session whose max-age is positive: when the
  payload that \<^verbatim>\<open>Save\<close> serializes (the session's payload, with a \<^verbatim>\<open>created_time\<close>
  entry stamped if it had none) is longer than a nonzero configured maximum, \<^verbatim>\<open>Save\<close>
  returns the error \<^verbatim>\<open>SessionStore: the value to store is too big\<close>, the store is as
  before (no command reaches the remote store) and the response is as before (no cookie).
\<close>

theorem Save_oversized:
  assumes "0 < MaxAge (sess_Options sess)"
    and "Serialize env (serializer s) (snd (with_created_time env (with_ID env sess))) = Inr b"
    and "maxLength s \<noteq> 0"
    and "int (length b) > maxLength s"
  shows "Save env s w sess =
     (s, w, snd (with_created_time env (with_ID env sess)),
      Some (ErrorsNew ''SessionStore: the value to store is too big''))"
proof -
  obtain ct sess' where ct: "with_created_time env (with_ID env sess) = (ct, sess')"
    by (cases "with_created_time env (with_ID env sess)")
  show ?thesis
    using assms by (simp add: Save_def save_def ct)
qed

theorem Save_oversized_witness:
  "0 < MaxAge (sess_Options (ex_session 3600)) \<and>
   Serialize ex_env (serializer ex_small) (ex_session 3600) = Inr ''created_timeuser'' \<and>
   maxLength ex_small = 8 \<and>
   Save ex_env ex_small [] (ex_session 3600) =
     (ex_small, [], ex_session 3600,
      Some (ErrorsNew ''SessionStore: the value to store is too big''))"
proof -
  have pos: "0 < MaxAge (sess_Options (ex_session 3600))"
    by (simp add: ex_session_def)
  have ser: "Serialize ex_env (serializer ex_small)
      (snd (with_created_time ex_env (with_ID ex_env (ex_session 3600)))) = Inr ''created_timeuser''"
    by (simp only: ex_session_prepared snd_conv ex_small_simps ex_session_Serialize)
  have nz: "maxLength ex_small \<noteq> 0"
    and big: "int (length ''created_timeuser'') > maxLength ex_small"
    by (simp_all add: ex_small_simps)
  show ?thesis
    using Save_oversized [OF pos ser nz big, of "[]"] pos
    by (simp add: ex_session_prepared ex_small_simps ex_session_Serialize del: Serialize.simps)
qed

text \<open>
  Claim C2 as stated fails for a session marked for deletion: with max-age \<open>-1\<close> and a
  payload of 16 bytes against a maximum of 8, \<^verbatim>\<open>Save\<close> never serializes; it returns no
  error, issues the remote delete and sets the clearing cookie.
\<close>

theorem Save_oversized_deleted_counterexample:
  "Serialize ex_env (serializer ex_small) (ex_session (- 1)) = Inr ''created_timeuser'' \<and>
   maxLength ex_small = 8 \<and>
   snd (snd (snd (Save ex_env ex_small [] (ex_session (- 1))))) = None \<and>
   map cName (fst (snd (Save ex_env ex_small [] (ex_session (- 1))))) = [''sid''] \<and>
   calls (Pool (fst (Save ex_env ex_small [] (ex_session (- 1))))) = [CmdDel ''session_abc'']"
proof -
  have "Save ex_env ex_small [] (ex_session (- 1)) =
     (ex_small\<lparr>Pool := ex_pool\<lparr>calls := [CmdDel ''session_abc''],
                                kv := (kv ex_pool)(''session_abc'' := None)\<rparr>\<rparr>,
      [NewCookie ''sid'' [] (sess_Options (ex_session (- 1)))], ex_session (- 1), None)"
    by (simp add: Save_def delete_def redis_Del_def Let_def SetCookie_def cName_NewCookie
          ex_session_name sid_valid ex_small_simps ex_pool_def)
      (simp add: ex_session_def)
  then show ?thesis
    by (simp add: ex_small_simps ex_session_Serialize NewCookie_def del: Serialize.simps)
qed

subsection \<open>Keys that are not strings\<close>

lemma string_keys_rejects:
  "\<exists>k \<in> fst ` set vals. \<not> is_GString k \<Longrightarrow>
   \<exists>k \<in> fst ` set vals. \<not> is_GString k \<and> string_keys vals m = Inl (NonStringKey k)"
proof (induction vals arbitrary: m)
  case Nil
  then show ?case by simp
next
  case (Cons kv rest)
  obtain k v where kv: "kv = (k, v)" by (cases kv)
  show ?case
  proof (cases "is_GString k")
    case True
    then obtain ks where ks: "k = GString ks"
      by (cases k) (auto simp: is_GString_def)
    from Cons.prems True kv have "\<exists>k \<in> fst ` set rest. \<not> is_GString k" by auto
    from Cons.IH [OF this, of "AList.update ks v m"] show ?thesis
      by (auto simp: kv ks)
  next
    case False
    then show ?thesis by (cases k) (auto simp: kv is_GString_def)
  qed
qed

lemma Serialize_rejects:
  "\<exists>k \<in> fst ` set (sess_Values ss). \<not> is_GString k \<Longrightarrow>
   \<exists>k \<in> fst ` set (sess_Values ss). \<not> is_GString k \<and> Serialize env ser ss = Inl (NonStringKey k)"
  using string_keys_rejects [of "sess_Values ss" "[]"]
  by (cases ser) auto

lemma update_absent: "k \<notin> fst ` set al \<Longrightarrow> AList.update k v al = al @ [(k, v)]"
  by (induction al) auto

lemma with_ID_Values: "sess_Values (with_ID env sess) = sess_Values sess"
  by (simp add: with_ID_def)

lemma with_created_time_Values:
  "sess_Values (snd (with_created_time env sess)) =
     (if GString ''created_time'' \<in> fst ` set (sess_Values sess) then sess_Values sess
      else sess_Values sess @ [(GString ''created_time'', GString (time_Now env))])"
proof (cases "map_of (sess_Values sess) (GString ''created_time'')")
  case None
  then have "GString ''created_time'' \<notin> fst ` set (sess_Values sess)"
    by (simp add: map_of_eq_None_iff)
  then show ?thesis
    using None by (simp add: with_created_time_def update_absent)
next
  case (Some v)
  then have "GString ''created_time'' \<in> fst ` set (sess_Values sess)"
    by (metis map_of_eq_None_iff option.distinct(1))
  then show ?thesis
    using Some by (simp add: with_created_time_def)
qed

text \<open>
  Claim C9, as the code has it. For a payload with at least one key that is not a string,
  \<^verbatim>\<open>JSONSerializer.Serialize\<close> returns the non-string-key error. \<^verbatim>\<open>Save\<close> of a session
  with positive max-age and such a payload returns that error, leaves the store as it was
  (no command reaches the remote store) and sets no cookie. The payload is unchanged
  when it already has a \<^verbatim>\<open>created_time\<close> entry; otherwise \<^verbatim>\<open>Save\<close> has added that
  entry, stamped with the current time.
\<close>

theorem JSON_rejects_non_string_keys:
  assumes "\<exists>k \<in> fst ` set (sess_Values sess). \<not> is_GString k"
  shows "(\<exists>k. \<not> is_GString k \<and> Serialize env JSONSerializer sess = Inl (NonStringKey k)) \<and>
     (0 < MaxAge (sess_Options sess) \<longrightarrow>
        (\<exists>k sess'. \<not> is_GString k \<and>
           Save env s w sess = (s, w, sess', Some (NonStringKey k)) \<and>
           sess_Values sess' =
             (if GString ''created_time'' \<in> fst ` set (sess_Values sess) then sess_Values sess
              else sess_Values sess @ [(GString ''created_time'', GString (time_Now env))])))"
proof -
  obtain ct sess' where ct: "with_created_time env (with_ID env sess) = (ct, sess')"
    by (cases "with_created_time env (with_ID env sess)")
  have vals: "sess_Values sess' =
     (if GString ''created_time'' \<in> fst ` set (sess_Values sess) then sess_Values sess
      else sess_Values sess @ [(GString ''created_time'', GString (time_Now env))])"
    using with_created_time_Values [of env "with_ID env sess"] by (simp add: ct with_ID_Values)
  then have "fst ` set (sess_Values sess) \<subseteq> fst ` set (sess_Values sess')"
    by auto
  with assms have "\<exists>k \<in> fst ` set (sess_Values sess'). \<not> is_GString k"
    by blast
  from Serialize_rejects [OF this, of env "serializer s"]
  obtain k where k: "\<not> is_GString k" "Serialize env (serializer s) sess' = Inl (NonStringKey k)"
    by blast
  have "0 < MaxAge (sess_Options sess) \<Longrightarrow>
        Save env s w sess = (s, w, sess', Some (NonStringKey k))"
    using k(2) by (simp add: Save_def save_def ct)
  with k(1) vals Serialize_rejects [OF assms, of env JSONSerializer] show ?thesis
    by blast
qed

theorem JSON_rejects_non_string_keys_witness:
  "GInt 1 \<in> fst ` set (sess_Values ex_nonstring) \<and> \<not> is_GString (GInt 1) \<and>
   0 < MaxAge (sess_Options ex_nonstring) \<and>
   (\<exists>k. Serialize ex_env JSONSerializer ex_nonstring = Inl (NonStringKey k)) \<and>
   (\<exists>k sess'. Save ex_env ex_store [] ex_nonstring = (ex_store, [], sess', Some (NonStringKey k)) \<and>
      sess_Values sess' =
        [(GInt 1, GString ''x''), (GString ''created_time'', GString ''20240102030405'')])"
proof -
  have hyp: "\<exists>k \<in> fst ` set (sess_Values ex_nonstring). \<not> is_GString k"
    by (simp add: ex_nonstring_simps is_GString_def)
  have now: "time_Now ex_env = ''20240102030405''"
    by (simp add: ex_env_def)
  show ?thesis
    using JSON_rejects_non_string_keys [OF hyp, of ex_env ex_store "[]"]
    by (auto simp: ex_nonstring_simps is_GString_def now)
qed

text \<open>
  Claim C9 as stated fails on the payload: \<^verbatim>\<open>Save\<close> stamps \<^verbatim>\<open>created_time\<close> before it
  serializes, so the rejected session comes back with one entry more than it had.
\<close>

theorem Save_stamps_rejected_payload_counterexample:
  "sess_Values ex_nonstring = [(GInt 1, GString ''x'')] \<and>
   Save ex_env ex_store [] ex_nonstring =
     (ex_store, [],
      ex_nonstring\<lparr>sess_Values :=
        [(GInt 1, GString ''x''), (GString ''created_time'', GString ''20240102030405'')]\<rparr>,
      Some (NonStringKey (GInt 1)))"
  by (simp add: Save_def save_def with_ID_def with_created_time_def ex_nonstring_def
        ex_session_def ex_store_simps ex_env_def)

subsection \<open>New\<close>

text \<open>
  The comparison of the two creation stamps panics on two slices and on two maps, and is
  inequality on every other pair; against a string it never panics.
\<close>

lemma go_neq_eq:
  "go_neq a b = (if uncomparable_pair a b then Inl UncomparableType else Inr (a \<noteq> b))"
  by (cases a; cases b) (simp_all add: uncomparable_pair_def is_GSlice_def is_GMap_def)

lemma go_neq_string: "go_neq v (GString x) = Inr (v \<noteq> GString x)"
  by (cases v) simp_all

text \<open>
  The copy loop of \<^verbatim>\<open>JSONSerializer.Deserialize\<close>: after it, a string key holds what the
  decoded map holds for it, or what the session held before; other keys are untouched.
\<close>

lemma map_of_copy_loop:
  "distinct (map fst m) \<Longrightarrow>
   map_of (fold (\<lambda>(k, v) vals. AList.update (GString k) v vals) m acc) (GString k) =
     (case map_of m k of Some v \<Rightarrow> Some v | None \<Rightarrow> map_of acc (GString k))"
proof (induction m arbitrary: acc)
  case Nil
  then show ?case by simp
next
  case (Cons kv m)
  obtain k0 v0 where kv: "kv = (k0, v0)" by (cases kv)
  from Cons.prems kv have d: "distinct (map fst m)" and n: "map_of m k0 = None"
    by (auto simp: map_of_eq_None_iff)
  show ?case
    using Cons.IH [OF d, of "AList.update (GString k0) v0 acc"] n
    by (auto simp: kv update_conv' split: option.splits)
qed


lemma load_found:
  assumes "fault (Pool s) = None"
    and "kv (Pool s) (keyPrefix s @ sess_ID sess) = Some (d, ttl)"
    and "json_Unmarshal env d [] = (None, m)"
  shows "load env s sess =
     ((True, None),
      s\<lparr>Pool := (Pool s)\<lparr>calls := calls (Pool s) @ [CmdGet (keyPrefix s @ sess_ID sess)]\<rparr>\<rparr>,
      sess\<lparr>sess_Values :=
        fold (\<lambda>(k, v) vals. AList.update (GString k) v vals) m (sess_Values sess)\<rparr>)"
proof (cases "serializer s")
  case JSONSerializer
  then show ?thesis
    using assms by (simp add: load_def redis_Get_def Let_def)
qed

lemma New_without_cookie:
  "Cookie r name = Inl e \<Longrightarrow>
   New env s r name =
     Inr (s, \<lparr>sess_ID = [], sess_Values = [], sess_Options = Options s,
              sess_IsNew = True, sess_name = name\<rparr>, None)"
  by (simp add: New_def)

lemma ex_decode:
  "DecodeMulti ex_env ''sid'' ''tok'' (Codecs ex_store) =
     Inr \<lparr>ID = ''abc'', CreateTime = GString ''20200101000000''\<rparr>"
  by (simp add: DecodeMulti_def ex_store_simps ex_env_def)

text \<open>
  When both stamps are slices, or both are maps, \<^verbatim>\<open>New\<close> panics in the comparison,
  whether or not they differ.
\<close>

lemma New_panics_on_uncomparable:
  assumes "Cookie r name = Inr c"
    and "DecodeMulti env name c (Codecs s) = Inr info"
    and "fault (Pool s) = None"
    and "kv (Pool s) (keyPrefix s @ ID info) = Some (d, ttl)"
    and "json_Unmarshal env d [] = (None, m)"
    and "distinct (map fst m)"
    and "uncomparable_pair (go_index m ''created_time'') (CreateTime info)"
  shows "New env s r name = Inl UncomparableType"
proof -
  let ?sess = "\<lparr>sess_ID = ID info, sess_Values = [], sess_Options = Options s,
                sess_IsNew = True, sess_name = name\<rparr>"
  let ?vals = "fold (\<lambda>(k, v) vals. AList.update (GString k) v vals) m []"
  have l: "load env s ?sess =
     ((True, None),
      s\<lparr>Pool := (Pool s)\<lparr>calls := calls (Pool s) @ [CmdGet (keyPrefix s @ ID info)]\<rparr>\<rparr>,
      ?sess\<lparr>sess_Values := ?vals\<rparr>)"
    using load_found [of s ?sess d ttl env m] assms(3-5) by simp
  have "go_index ?vals (GString ''created_time'') = go_index m ''created_time''"
    using map_of_copy_loop [OF assms(6), of "[]" "''created_time''"]
    by (simp add: go_index_def split: option.splits)
  then have "go_neq (go_index ?vals (GString ''created_time'')) (CreateTime info) =
      Inl UncomparableType"
    using assms(7) by (simp add: go_neq_eq)
  then show ?thesis
    using assms(1,2) l by (simp add: New_def)
qed

text \<open>
  Claim C1, as the code has it. Let the request carry a cookie that \<^verbatim>\<open>DecodeMulti\<close>
  decodes to an envelope, let the remote store answer and hold a record under the key of
  the envelope's ID, and let the record's bytes decode without error to a map \<open>m\<close>. If
  the \<^verbatim>\<open>created_time\<close> entry of \<open>m\<close> (\<^verbatim>\<open>nil\<close> when \<open>m\<close> has none) differs from the
  envelope's creation stamp, and the two are not both slices or both maps, then \<^verbatim>\<open>New\<close>
  returns, without error and after the one read of the record, the session with the
  envelope's ID, an empty payload and \<^verbatim>\<open>IsNew = true\<close>: nothing of \<open>m\<close> is left in the
  result.
\<close>

theorem New_stale_record:
  assumes "Cookie r name = Inr c"
    and "DecodeMulti env name c (Codecs s) = Inr info"
    and "fault (Pool s) = None"
    and "kv (Pool s) (keyPrefix s @ ID info) = Some (d, ttl)"
    and "json_Unmarshal env d [] = (None, m)"
    and "distinct (map fst m)"
    and "go_index m ''created_time'' \<noteq> CreateTime info"
    and "\<not> uncomparable_pair (go_index m ''created_time'') (CreateTime info)"
  shows "New env s r name =
     Inr (s\<lparr>Pool := (Pool s)\<lparr>calls := calls (Pool s) @ [CmdGet (keyPrefix s @ ID info)]\<rparr>\<rparr>,
          \<lparr>sess_ID = ID info, sess_Values = [], sess_Options = Options s,
           sess_IsNew = True, sess_name = name\<rparr>, None)"
proof -
  let ?sess = "\<lparr>sess_ID = ID info, sess_Values = [], sess_Options = Options s,
                sess_IsNew = True, sess_name = name\<rparr>"
  let ?vals = "fold (\<lambda>(k, v) vals. AList.update (GString k) v vals) m []"
  have l: "load env s ?sess =
     ((True, None),
      s\<lparr>Pool := (Pool s)\<lparr>calls := calls (Pool s) @ [CmdGet (keyPrefix s @ ID info)]\<rparr>\<rparr>,
      ?sess\<lparr>sess_Values := ?vals\<rparr>)"
    using load_found [of s ?sess d ttl env m] assms(3-5) by simp
  have "go_index ?vals (GString ''created_time'') = go_index m ''created_time''"
    using map_of_copy_loop [OF assms(6), of "[]" "''created_time''"]
    by (simp add: go_index_def split: option.splits)
  then have "go_neq (go_index ?vals (GString ''created_time'')) (CreateTime info) = Inr True"
    using assms(7,8) by (simp add: go_neq_eq)
  then show ?thesis
    using assms(1,2) l by (simp add: New_def)
qed

theorem New_stale_record_witness:
  "Cookie ex_request ''sid'' = Inr ''tok'' \<and>
   DecodeMulti ex_env ''sid'' ''tok'' (Codecs ex_store) =
     Inr \<lparr>ID = ''abc'', CreateTime = GString ''20200101000000''\<rparr> \<and>
   fault (Pool ex_store) = None \<and>
   kv (Pool ex_store) ''session_abc'' = Some (''20190101000000'', 3600000000000) \<and>
   json_Unmarshal ex_env ''20190101000000'' [] =
     (None, [(''user'', GString ''bob''), (''created_time'', GString ''20190101000000'')]) \<and>
   New ex_env ex_store ex_request ''sid'' =
     Inr (ex_store\<lparr>Pool := ex_pool\<lparr>calls := [CmdGet ''session_abc'']\<rparr>\<rparr>,
          \<lparr>sess_ID = ''abc'', sess_Values = [], sess_Options = Options ex_store,
           sess_IsNew = True, sess_name = ''sid''\<rparr>, None)"
proof -
  let ?info = "\<lparr>ID = ''abc'', CreateTime = GString ''20200101000000''\<rparr>"
  let ?m = "[(''user'', GString ''bob''), (''created_time'', GString ''20190101000000'')]"
  have c: "Cookie ex_request ''sid'' = Inr ''tok''"
    by (simp add: Cookie_def ex_request_def)
  have f: "fault (Pool ex_store) = None"
    by (simp add: ex_store_simps ex_pool_def)
  have k: "kv (Pool ex_store) (keyPrefix ex_store @ ID ?info) =
      Some (''20190101000000'', 3600000000000)"
    by (simp add: ex_store_simps ex_pool_def)
  have u: "json_Unmarshal ex_env ''20190101000000'' [] = (None, ?m)"
    by (simp add: ex_env_def)
  have d: "distinct (map fst ?m)"
    by simp
  have n: "go_index ?m ''created_time'' \<noteq> CreateTime ?info"
    by (simp add: go_index_def)
  have p: "\<not> uncomparable_pair (go_index ?m ''created_time'') (CreateTime ?info)"
    by (simp add: go_index_def uncomparable_pair_def is_GSlice_def is_GMap_def)
  show ?thesis
    using New_stale_record [OF c ex_decode f k u d n p] c ex_decode f k u
    by (simp add: ex_store_simps ex_pool_def)
qed

text \<open>
  Claim C1 as stated fails when both stamps are slices: the cookie decodes, the record
  loads, the stored stamp differs from the envelope's, and \<^verbatim>\<open>New\<close> panics instead of
  returning a session.
\<close>

theorem New_slice_stamps_counterexample:
  "Cookie ex_request ''sid'' = Inr ''tok'' \<and>
   DecodeMulti ex_slice_env ''sid'' ''tok'' (Codecs ex_store) =
     Inr \<lparr>ID = ''abc'', CreateTime = GSlice [GString ''a'']\<rparr> \<and>
   load ex_slice_env ex_store ex_fresh =
     ((True, None), ex_store\<lparr>Pool := ex_pool\<lparr>calls := [CmdGet ''session_abc'']\<rparr>\<rparr>,
      ex_fresh\<lparr>sess_Values := [(GString ''created_time'', GSlice [GString ''b''])]\<rparr>) \<and>
   GSlice [GString ''b''] \<noteq> GSlice [GString ''a''] \<and>
   New ex_slice_env ex_store ex_request ''sid'' = Inl UncomparableType"
  by (simp add: New_def Cookie_def ex_request_def DecodeMulti_def load_def redis_Get_def Let_def
        ex_fresh_def ex_store_simps ex_pool_def ex_slice_env_def ex_env_def go_index_def)

lemma decode_loop_all_fail:
  "\<forall>codec \<in> set cs. \<exists>e. codec_Decode env codec name val = Inl e \<Longrightarrow>
   \<exists>es. decode_loop env name val cs errs = Inl (MultiError es)"
  by (induction cs arbitrary: errs) auto

lemma DecodeMulti_all_fail:
  "\<forall>codec \<in> set cs. \<exists>e. codec_Decode env codec name val = Inl e \<Longrightarrow>
   \<exists>e. DecodeMulti env name val cs = Inl e"
  using decode_loop_all_fail [of cs env name val "[]"] by (auto simp: DecodeMulti_def)

text \<open>
  Claim C7. Let the request carry a cookie that every codec of the store's codec set
  fails to decode. Then \<^verbatim>\<open>New\<close> does not panic and reaches neither the remote store nor
  the serializer: it returns the fresh session (empty ID, empty payload,
  \<^verbatim>\<open>IsNew = true\<close>, a copy of the store's options), together with the error that
  \<^verbatim>\<open>DecodeMulti\<close> reported.
\<close>

theorem New_undecodable_cookie:
  assumes "Cookie r name = Inr c"
    and "\<forall>codec \<in> set (Codecs s). \<exists>e. codec_Decode env codec name c = Inl e"
  shows "\<exists>e. New env s r name =
     Inr (s, \<lparr>sess_ID = [], sess_Values = [], sess_Options = Options s,
              sess_IsNew = True, sess_name = name\<rparr>, Some e)"
  using DecodeMulti_all_fail [OF assms(2)] assms(1) by (auto simp: New_def)

theorem New_undecodable_cookie_witness:
  "Cookie ex_forged ''sid'' = Inr ''forged'' \<and>
   list_all isl (map (\<lambda>codec. codec_Decode ex_env codec ''sid'' ''forged'') (Codecs ex_store)) \<and>
   (\<exists>e. New ex_env ex_store ex_forged ''sid'' =
      Inr (ex_store, \<lparr>sess_ID = [], sess_Values = [], sess_Options = Options ex_store,
                      sess_IsNew = True, sess_name = ''sid''\<rparr>, Some e))"
proof -
  have c: "Cookie ex_forged ''sid'' = Inr ''forged''"
    by (simp add: Cookie_def ex_forged_def)
  have d: "\<forall>codec \<in> set (Codecs ex_store).
      \<exists>e. codec_Decode ex_env codec ''sid'' ''forged'' = Inl e"
    by (simp add: ex_store_simps ex_env_def)
  have i: "list_all isl
      (map (\<lambda>codec. codec_Decode ex_env codec ''sid'' ''forged'') (Codecs ex_store))"
    by (simp add: ex_store_simps ex_env_def)
  show ?thesis
    using New_undecodable_cookie [OF c d] c i by simp
qed

subsection \<open>The round trip through a serializer\<close>








subsection \<open>Stores built by the constructor\<close>

lemma CodecsFromPairs_SecureCookie: "\<forall>c \<in> set (CodecsFromPairs keyPairs). is_SecureCookie c"
  by (induction keyPairs rule: CodecsFromPairs.induct)
    (simp_all add: is_SecureCookie_def securecookie_New_def)

lemma SetMaxAge_codecs_all:
  "\<forall>c \<in> set cs. is_SecureCookie c \<Longrightarrow>
   \<forall>c \<in> set (SetMaxAge_codecs v cs). enforced_maxAge c = Some v"
  by (induction cs) (auto simp: is_SecureCookie_def enforced_maxAge_def split: codec.splits)

lemma SetMaxAge_constructed_store:
  "\<forall>c \<in> set (Codecs (SetMaxAge (NewRedisStoreWithPool pool keyPairs) v)).
     enforced_maxAge c = Some v"
  using SetMaxAge_codecs_all [OF CodecsFromPairs_SecureCookie]
  by (simp add: SetMaxAge_def NewRedisStoreWithPool_def)

end
